theory Spec2Isabelle
  imports Main
begin

section \<open>Data model of \<open>exchangelib/account.py\<close>\<close>

text \<open>
  The well-known folder classes imported by \<open>account.py\<close> from \<open>folders.py\<close>, plus the
  generic folder class (\<open>Other\<close>) that every folder without a well-known type carries.
\<close>

datatype folder_class =
    Root | Calendar | DeletedItems | Drafts | Inbox | Outbox | SentItems | JunkEmail
  | Tasks | Contacts | RecoverableItemsRoot | RecoverableItemsDeletions | Other

datatype depth = SHALLOW | DEEP

record folder =
  folder_class :: folder_class
  folder_id :: "string option"
  changekey :: "string option"
  name :: string
  is_distinguished :: bool

text \<open>What an assertion of \<open>account.py\<close> reports when it fails.\<close>

datatype assert_info =
    BadAccessType string
  | BadChoice string
  | MultipleDefaults folder_class "folder list"

text \<open>
  Exceptions as values. \<open>ErrorFolderNotFound\<close> carries its message and its cause
  (\<open>raise ... from e\<close>).
\<close>

datatype error =
    ErrorFolderNotFound string "error option"
  | ErrorAccessDenied string
  | TransportError string
  | AttributeError string
  | ValueError string
  | AssertionError assert_info
  | KeyError folder_class

record credentials =
  username :: string
  password :: string

record protocol =
  service_endpoint :: string
  version :: string

record config =
  config_protocol :: protocol

text \<open>The payload handed to \<open>UploadItems(...).call\<close>: the raw data, or (folder, data) pairs.\<close>

datatype upload_payload =
    RawData "string list"
  | MergedData "(folder option \<times> string) list"

text \<open>
  The remote calls the account makes through its collaborators, in the order they are made.
  The log of calls is threaded through every operation, so that "no remote call" is the
  statement that the log did not grow.
\<close>

datatype call =
    Discover string credentials bool
  | GetDistinguished folder_class
  | GetFolders folder depth
  | FindItems folder
  | UploadItems upload_payload
  | UpdateItem "(string \<times> string list) list" string string string bool
  | DeleteItem "(string \<times> string) list" string string string bool

text \<open>
  The collaborators (\<open>autodiscover\<close>, \<open>folders\<close>, \<open>services\<close>) and the static tables of
  \<open>folders.py\<close>, none of which is part of the shown source. Every remote operation answers
  from the log of the calls made so far and its arguments, so a server with state is covered.

  Python text is a \<open>string\<close> here, the bytes of its UTF-8 encoding: the comparisons
  of the source (\<open>==\<close>, \<open>in\<close> a list of names, \<open>'@' in address\<close>) give the same answer on
  the encoded text. \<open>str.title()\<close> is different: it is a built-in of Python that follows the
  case tables of Unicode, which are no part of this program. It is the parameter
  \<open>str_title\<close>, and everything proved below holds for whatever function it is.
\<close>

record env =
  discover :: "call list \<Rightarrow> string \<Rightarrow> credentials \<Rightarrow> bool \<Rightarrow> error + (string \<times> protocol)"
  get_distinguished :: "call list \<Rightarrow> folder_class \<Rightarrow> error + folder"
  get_folders :: "call list \<Rightarrow> folder \<Rightarrow> depth \<Rightarrow> error + folder list"
  find_items :: "call list \<Rightarrow> folder \<Rightarrow> error + unit"
  upload_items :: "call list \<Rightarrow> upload_payload \<Rightarrow> error + (string \<times> string) list"
  update_item :: "call list \<Rightarrow> (string \<times> string list) list \<Rightarrow> string \<Rightarrow> string \<Rightarrow> string \<Rightarrow> bool
                    \<Rightarrow> error + string list"
  delete_item :: "call list \<Rightarrow> (string \<times> string) list \<Rightarrow> string \<Rightarrow> string \<Rightarrow> string \<Rightarrow> bool
                    \<Rightarrow> error + string list"
  id_from_xml :: "string \<Rightarrow> string \<times> string"
  str_title :: "string \<Rightarrow> string"
  LOCALIZED_NAMES :: "folder_class \<Rightarrow> string \<rightharpoonup> string list"
  CONFLICT_RESOLUTION_CHOICES :: "string list"
  MESSAGE_DISPOSITION_CHOICES :: "string list"
  SEND_MEETING_INVITATIONS_AND_CANCELLATIONS_CHOICES :: "string list"
  DELETE_TYPE_CHOICES :: "string list"
  SEND_MEETING_CANCELLATIONS_CHOICES :: "string list"
  AFFECTED_TASK_OCCURRENCES_CHOICES :: "string list"

type_synonym directory = "folder_class \<rightharpoonup> folder list"

text \<open>
  The account object. The \<open>cache_*\<close> fields are the private attributes \<open>_folders\<close>,
  \<open>_calendar\<close>, ... of the source: \<open>None\<close> when \<open>hasattr\<close> is false.
\<close>

record account =
  primary_smtp_address :: string
  fullname :: "string option"
  account_locale :: string
  access_type :: string
  account_protocol :: protocol
  account_version :: string
  root :: folder
  cache_folders :: "directory option"
  cache_calendar :: "folder option"
  cache_trash :: "folder option"
  cache_drafts :: "folder option"
  cache_inbox :: "folder option"
  cache_outbox :: "folder option"
  cache_sent :: "folder option"
  cache_junk :: "folder option"
  cache_tasks :: "folder option"
  cache_contacts :: "folder option"
  cache_recoverable_items_root :: "folder option"
  cache_recoverable_deleted_items :: "folder option"

text \<open>An operation on an account: its result or exception, the account and the call log after it.\<close>

type_synonym 'a outcome = "(error + 'a) \<times> account \<times> call list"

section \<open>Helpers that are not in the shown source\<close>

text \<open>
  Modelled from the spec: \<open>WELLKNOWN_FOLDERS.values()\<close> of \<open>folders.py\<close> (absent). The spec
  fixes the enumeration of well-known types and requires every one of them as a key of the
  folder directory.
\<close>

definition WELLKNOWN_FOLDERS_values :: "folder_class list" where
  "WELLKNOWN_FOLDERS_values =
     [Root, Calendar, DeletedItems, Drafts, Inbox, Outbox, SentItems, JunkEmail, Tasks,
      Contacts, RecoverableItemsRoot, RecoverableItemsDeletions, Other]"

text \<open>
  Modelled from the spec: the constants \<open>DELEGATE\<close> and \<open>IMPERSONATION\<close> of
  \<open>credentials.py\<close> (absent), the two access modes.
\<close>

definition DELEGATE :: string where
  "DELEGATE = ''delegate''"

definition IMPERSONATION :: string where
  "IMPERSONATION = ''impersonation''"

text \<open>
  Modelled from the spec: the folder constructor \<open>fld_class(account)\<close> of \<open>folders.py\<close>
  (absent), a lightweight handle for the class that was not fetched from the server.
\<close>

definition Folder_init :: "folder_class \<Rightarrow> folder" where
  "Folder_init c =
     \<lparr>folder_class = c, folder_id = None, changekey = None, name = [], is_distinguished = False\<rparr>"

text \<open>\<open>fld_class.__name__\<close>.\<close>

fun class_name :: "folder_class \<Rightarrow> string" where
  "class_name Root = ''Root''"
| "class_name Calendar = ''Calendar''"
| "class_name DeletedItems = ''DeletedItems''"
| "class_name Drafts = ''Drafts''"
| "class_name Inbox = ''Inbox''"
| "class_name Outbox = ''Outbox''"
| "class_name SentItems = ''SentItems''"
| "class_name JunkEmail = ''JunkEmail''"
| "class_name Tasks = ''Tasks''"
| "class_name Contacts = ''Contacts''"
| "class_name RecoverableItemsRoot = ''RecoverableItemsRoot''"
| "class_name RecoverableItemsDeletions = ''RecoverableItemsDeletions''"
| "class_name Other = ''Folder''"

text \<open>
  Modelled from the spec: \<open>peek\<close> of \<open>util.py\<close> (absent), which tells whether the input
  sequence is empty and hands the sequence back.
\<close>

definition peek :: "'a list \<Rightarrow> bool \<times> 'a list" where
  "peek xs = (xs = [], xs)"

section \<open>\<open>Account.folders\<close>\<close>

text \<open>
  Lines 79 to 88: the shallow listing of the root, the search for the first folder named
  \<open>Top of Information Store\<close> (the loop with \<open>break\<close>), and either the shallow listing of
  that folder or the deep listing of the root.
\<close>

definition working_set :: "env \<Rightarrow> account \<Rightarrow> call list \<Rightarrow> (error + folder list) \<times> call list" where
  "working_set e s calls =
     (let calls1 = calls @ [GetFolders (root s) SHALLOW] in
      case get_folders e calls (root s) SHALLOW of
        Inl err \<Rightarrow> (Inl err, calls1)
      | Inr listing \<Rightarrow>
          (case find (\<lambda>f. name f = ''Top of Information Store'') listing of
             Some tois \<Rightarrow>
               (get_folders e calls1 tois SHALLOW, calls1 @ [GetFolders tois SHALLOW])
           | None \<Rightarrow>
               (get_folders e calls1 (root s) DEEP, calls1 @ [GetFolders (root s) DEEP])))"

text \<open>Line 89: \<open>dict((m, []) for m in WELLKNOWN_FOLDERS.values())\<close>.\<close>

definition empty_directory :: directory where
  "empty_directory = map_of (map (\<lambda>m. (m, [])) WELLKNOWN_FOLDERS_values)"

text \<open>
  Lines 90 and 91: \<open>self._folders[f.__class__].append(f)\<close> for every folder. A class that is
  no key of the dictionary raises \<open>KeyError\<close>; the folders appended before it stay.
\<close>

fun classify :: "directory \<Rightarrow> folder list \<Rightarrow> error option \<times> directory" where
  "classify d [] = (None, d)"
| "classify d (f # fs) =
     (case d (folder_class f) of
        None \<Rightarrow> (Some (KeyError (folder_class f)), d)
      | Some l \<Rightarrow> classify (d(folder_class f \<mapsto> l @ [f])) fs)"

definition folders :: "env \<Rightarrow> account \<Rightarrow> call list \<Rightarrow> directory outcome" where
  "folders e s calls =
     (case cache_folders s of
        Some d \<Rightarrow> (Inr d, s, calls)
      | None \<Rightarrow>
          (case working_set e s calls of
             (Inl err, calls') \<Rightarrow> (Inl err, s, calls')
           | (Inr ws, calls') \<Rightarrow>
               (case classify empty_directory ws of
                  (Some err, d) \<Rightarrow> (Inl err, s\<lparr>cache_folders := Some d\<rparr>, calls')
                | (None, d) \<Rightarrow> (Inr d, s\<lparr>cache_folders := Some d\<rparr>, calls'))))"

section \<open>\<open>Account._get_default_folder\<close>\<close>

text \<open>
  Lines 109 to 119: the folders of the class whose name, title-cased by \<open>folder.name.title()\<close>,
  is in \<open>fld_class.LOCALIZED_NAMES.get(self.locale, [])\<close>.
\<close>

definition localized_candidates :: "env \<Rightarrow> account \<Rightarrow> folder_class \<Rightarrow> folder list \<Rightarrow> folder list" where
  "localized_candidates e s fld_class cands =
     filter (\<lambda>f. str_title e (name f) \<in>
                   set (case LOCALIZED_NAMES e fld_class (account_locale s) of None \<Rightarrow> [] | Some ns \<Rightarrow> ns))
            cands"

text \<open>Lines 105 to 129: the handler of \<open>ErrorFolderNotFound\<close>; \<open>cause\<close> is the error caught.\<close>

definition search_default_folder :: "env \<Rightarrow> folder_class \<Rightarrow> error \<Rightarrow> account \<Rightarrow> call list \<Rightarrow> folder outcome" where
  "search_default_folder e fld_class cause s calls =
     (case folders e s calls of
        (Inl err, s1, calls1) \<Rightarrow> (Inl err, s1, calls1)
      | (Inr d1, s1, calls1) \<Rightarrow>
          (case d1 fld_class of
             None \<Rightarrow> (Inl (KeyError fld_class), s1, calls1)
           | Some cands1 \<Rightarrow>
               (let flds = localized_candidates e s1 fld_class cands1 in
                if flds = [] then
                  (case folders e s1 calls1 of
                     (Inl err, s2, calls2) \<Rightarrow> (Inl err, s2, calls2)
                   | (Inr d2, s2, calls2) \<Rightarrow>
                       (case d2 fld_class of
                          None \<Rightarrow> (Inl (KeyError fld_class), s2, calls2)
                        | Some cands2 \<Rightarrow>
                            (let flds2 = filter is_distinguished cands2 in
                             if flds2 = [] then
                               (Inl (ErrorFolderNotFound
                                       (''No useable default '' @ class_name fld_class @ '' folders'')
                                       (Some cause)), s2, calls2)
                             else if length flds2 \<noteq> 1 then
                               (Inl (AssertionError (MultipleDefaults fld_class flds2)), s2, calls2)
                             else (Inr (hd flds2), s2, calls2))))
                else if length flds \<noteq> 1 then
                  (Inl (AssertionError (MultipleDefaults fld_class flds)), s1, calls1)
                else (Inr (hd flds), s1, calls1))))"

definition get_default_folder :: "env \<Rightarrow> folder_class \<Rightarrow> account \<Rightarrow> call list \<Rightarrow> folder outcome" where
  "get_default_folder e fld_class s calls =
     (let calls1 = calls @ [GetDistinguished fld_class] in
      case get_distinguished e calls fld_class of
        Inr f \<Rightarrow> (Inr f, s, calls1)
      | Inl (ErrorAccessDenied m) \<Rightarrow>
          (let fld = Folder_init fld_class in
           case find_items e calls1 fld of
             Inl err \<Rightarrow> (Inl err, s, calls1 @ [FindItems fld])
           | Inr u \<Rightarrow> (Inr fld, s, calls1 @ [FindItems fld]))
      | Inl (ErrorFolderNotFound m c) \<Rightarrow>
          search_default_folder e fld_class (ErrorFolderNotFound m c) s calls1
      | Inl err \<Rightarrow> (Inl err, s, calls1))"

section \<open>The default-folder accessors\<close>















section \<open>\<open>Account.__init__\<close>\<close>

record account_args =
  arg_primary_smtp_address :: string
  arg_fullname :: "string option"
  arg_access_type :: "string option"
  arg_autodiscover :: bool
  arg_credentials :: "credentials option"
  arg_config :: "config option"
  arg_verify_ssl :: bool
  arg_locale :: string

text \<open>Lines 44 to 50: the version of the protocol, then the root folder fetched from the server.\<close>

definition finish_init ::
  "env \<Rightarrow> account_args \<Rightarrow> string \<Rightarrow> string \<Rightarrow> protocol \<Rightarrow> call list \<Rightarrow> (error + account) \<times> call list" where
  "finish_init e a address at proto calls =
     (case get_distinguished e calls Root of
        Inl err \<Rightarrow> (Inl err, calls @ [GetDistinguished Root])
      | Inr r \<Rightarrow>
          (Inr \<lparr>primary_smtp_address = address, fullname = arg_fullname a,
                account_locale = arg_locale a, access_type = at, account_protocol = proto,
                account_version = version proto, root = r, cache_folders = None,
                cache_calendar = None, cache_trash = None, cache_drafts = None,
                cache_inbox = None, cache_outbox = None, cache_sent = None, cache_junk = None,
                cache_tasks = None, cache_contacts = None,
                cache_recoverable_items_root = None,
                cache_recoverable_deleted_items = None\<rparr>,
           calls @ [GetDistinguished Root]))"

text \<open>\<open>access_type or (DELEGATE if credentials else IMPERSONATION)\<close>: the empty string is falsy.\<close>

definition resolve_access_type :: "account_args \<Rightarrow> string" where
  "resolve_access_type a =
     (case arg_access_type a of
        Some t \<Rightarrow> if t \<noteq> [] then t
                  else (if arg_credentials a \<noteq> None then DELEGATE else IMPERSONATION)
      | None \<Rightarrow> (if arg_credentials a \<noteq> None then DELEGATE else IMPERSONATION))"

definition Account_init :: "env \<Rightarrow> account_args \<Rightarrow> call list \<Rightarrow> (error + account) \<times> call list" where
  "Account_init e a calls =
     (if CHR ''@'' \<notin> set (arg_primary_smtp_address a) then
        (Inl (ValueError (''primary_smtp_address '' @ [CHR 0x27] @ arg_primary_smtp_address a
                            @ [CHR 0x27] @ '' is not an email address'')), calls)
      else if resolve_access_type a \<notin> {DELEGATE, IMPERSONATION} then
        (Inl (AssertionError (BadAccessType (resolve_access_type a))), calls)
      else if arg_autodiscover a then
        (case arg_credentials a of
           None \<Rightarrow> (Inl (AttributeError ''autodiscover requires credentials''), calls)
         | Some c \<Rightarrow>
             (let calls1 = calls @ [Discover (arg_primary_smtp_address a) c (arg_verify_ssl a)] in
              case discover e calls (arg_primary_smtp_address a) c (arg_verify_ssl a) of
                Inl err \<Rightarrow> (Inl err, calls1)
              | Inr (address, proto) \<Rightarrow>
                  (if arg_config a \<noteq> None then
                     (Inl (AttributeError ''config is ignored when autodiscover is active''), calls1)
                   else finish_init e a address (resolve_access_type a) proto calls1)))
      else
        (case arg_config a of
           None \<Rightarrow> (Inl (AttributeError ''non-autodiscover requires a config''), calls)
         | Some cfg \<Rightarrow>
             finish_init e a (arg_primary_smtp_address a) (resolve_access_type a)
               (config_protocol cfg) calls))"

section \<open>\<open>Account.upload\<close>\<close>

text \<open>
  The \<open>folders\<close> argument: \<open>None\<close>, an iterable of folders, or one folder. \<open>zip(folders, data)\<close>
  raises \<open>TypeError\<close> for the first and the last, which are not iterable.
\<close>

datatype folders_arg = NoFolders | FolderSeq "folder list" | OneFolder folder

datatype item_id = ItemId string string

definition upload ::
  "env \<Rightarrow> account \<Rightarrow> string list \<Rightarrow> folders_arg \<Rightarrow> call list \<Rightarrow> (error + item_id list) \<times> call list" where
  "upload e s data fs calls =
     (case (if fs = NoFolders
            then (case upload_items e calls (RawData data) of
                    Inl err \<Rightarrow> (Some err, calls @ [UploadItems (RawData data)])
                  | Inr upload_ids \<Rightarrow> (None, calls @ [UploadItems (RawData data)]))
            else (None, calls)) of
        (Some err, calls1) \<Rightarrow> (Inl err, calls1)
      | (None, calls1) \<Rightarrow>
          (let merged_data =
                 (case fs of
                    FolderSeq l \<Rightarrow> map (\<lambda>(folder, data_str). (Some folder, data_str)) (zip l data)
                  | NoFolders \<Rightarrow> map (\<lambda>data_str. (None, data_str)) data
                  | OneFolder f \<Rightarrow> map (\<lambda>data_str. (Some f, data_str)) data)
           in case upload_items e calls1 (MergedData merged_data) of
                Inl err \<Rightarrow> (Inl err, calls1 @ [UploadItems (MergedData merged_data)])
              | Inr upload_ids \<Rightarrow>
                  (Inr (map (\<lambda>(i, change_key). ItemId i change_key) upload_ids),
                   calls1 @ [UploadItems (MergedData merged_data)])))"

section \<open>\<open>Account.bulk_update\<close> and \<open>Account.bulk_delete\<close>\<close>

definition bulk_update ::
  "env \<Rightarrow> account \<Rightarrow> (string \<times> string list) list \<Rightarrow> string \<Rightarrow> string \<Rightarrow> string \<Rightarrow> bool
     \<Rightarrow> call list \<Rightarrow> (error + (string \<times> string) list) \<times> call list" where
  "bulk_update e s items conflict_resolution message_disposition
       send_meeting_invitations_or_cancellations suppress_read_receipts calls =
     (if conflict_resolution \<notin> set (CONFLICT_RESOLUTION_CHOICES e) then
        (Inl (AssertionError (BadChoice conflict_resolution)), calls)
      else if message_disposition \<notin> set (MESSAGE_DISPOSITION_CHOICES e) then
        (Inl (AssertionError (BadChoice message_disposition)), calls)
      else if send_meeting_invitations_or_cancellations
                \<notin> set (SEND_MEETING_INVITATIONS_AND_CANCELLATIONS_CHOICES e) then
        (Inl (AssertionError (BadChoice send_meeting_invitations_or_cancellations)), calls)
      else
        (case peek items of
           (True, items') \<Rightarrow> (Inr [], calls)
         | (False, items') \<Rightarrow>
             (let calls1 = calls @ [UpdateItem items' conflict_resolution message_disposition
                                      send_meeting_invitations_or_cancellations
                                      suppress_read_receipts] in
              case update_item e calls items' conflict_resolution message_disposition
                     send_meeting_invitations_or_cancellations suppress_read_receipts of
                Inl err \<Rightarrow> (Inl err, calls1)
              | Inr elems \<Rightarrow> (Inr (map (id_from_xml e) elems), calls1))))"

definition bulk_delete ::
  "env \<Rightarrow> account \<Rightarrow> (string \<times> string) list \<Rightarrow> string \<Rightarrow> string \<Rightarrow> string \<Rightarrow> bool
     \<Rightarrow> call list \<Rightarrow> (error + string list) \<times> call list" where
  "bulk_delete e s ids delete_type send_meeting_cancellations affected_task_occurrences
       suppress_read_receipts calls =
     (if delete_type \<notin> set (DELETE_TYPE_CHOICES e) then
        (Inl (AssertionError (BadChoice delete_type)), calls)
      else if send_meeting_cancellations \<notin> set (SEND_MEETING_CANCELLATIONS_CHOICES e) then
        (Inl (AssertionError (BadChoice send_meeting_cancellations)), calls)
      else if affected_task_occurrences \<notin> set (AFFECTED_TASK_OCCURRENCES_CHOICES e) then
        (Inl (AssertionError (BadChoice affected_task_occurrences)), calls)
      else
        (case peek ids of
           (True, ids') \<Rightarrow> (Inr [], calls)
         | (False, ids') \<Rightarrow>
             (let calls1 = calls @ [DeleteItem ids' delete_type send_meeting_cancellations
                                      affected_task_occurrences suppress_read_receipts] in
              case delete_item e calls ids' delete_type send_meeting_cancellations
                     affected_task_occurrences suppress_read_receipts of
                Inl err \<Rightarrow> (Inl err, calls1)
              | Inr res \<Rightarrow> (Inr res, calls1))))"

section \<open>A sample mailbox\<close>

text \<open>
  A Danish mailbox on which the theorems below are exercised. The distinguished lookup
  succeeds for the root only; it is denied for the calendar and reports folder-not-found
  for everything else. The root lists a \<open>Top of Information Store\<close> and a shared inbox; the
  store holds one inbox, two folders of sent items with a localized name, a folder of
  notes and two drafts folders, one of which the server marks as distinguished.
\<close>

text \<open>
  The \<open>str_title\<close> of the sample: what \<open>str.title()\<close> does on ASCII text, where the first
  letter of every run of letters is put in upper case and the other letters of the run in
  lower case. Every name and every table entry of the sample mailbox is ASCII text; on
  other text this function is not \<open>str.title()\<close> and is not used.
\<close>

definition is_lower :: "char \<Rightarrow> bool" where
  "is_lower c = (97 \<le> (of_char c :: nat) \<and> (of_char c :: nat) \<le> 122)"

definition is_upper :: "char \<Rightarrow> bool" where
  "is_upper c = (65 \<le> (of_char c :: nat) \<and> (of_char c :: nat) \<le> 90)"

definition to_upper :: "char \<Rightarrow> char" where
  "to_upper c = (if is_lower c then char_of ((of_char c :: nat) - 32) else c)"

definition to_lower :: "char \<Rightarrow> char" where
  "to_lower c = (if is_upper c then char_of ((of_char c :: nat) + 32) else c)"

fun title_from :: "bool \<Rightarrow> string \<Rightarrow> string" where
  "title_from previous_is_cased [] = []"
| "title_from previous_is_cased (c # cs) =
     (if is_lower c then
        (if previous_is_cased then c else to_upper c) # title_from True cs
      else if is_upper c then
        (if previous_is_cased then to_lower c else c) # title_from True cs
      else c # title_from False cs)"

definition ascii_title :: "string \<Rightarrow> string" where
  "ascii_title s = title_from False s"

definition mk_folder :: "folder_class \<Rightarrow> string \<Rightarrow> bool \<Rightarrow> folder" where
  "mk_folder c n d =
     \<lparr>folder_class = c, folder_id = Some n, changekey = Some ''ck'', name = n,
      is_distinguished = d\<rparr>"

definition sample_root :: folder where
  "sample_root = mk_folder Root ''root'' True"

definition sample_tois :: folder where
  "sample_tois = mk_folder Other ''Top of Information Store'' False"

definition sample_listing :: "folder list" where
  "sample_listing =
     [mk_folder Inbox ''indBAKKE'' False, mk_folder SentItems ''Sendt post'' False,
      mk_folder Other ''Noter'' False, mk_folder SentItems ''SENDT POST'' False,
      mk_folder Drafts ''Kladder'' True, mk_folder Drafts ''Old drafts'' False]"

definition sample_protocol :: protocol where
  "sample_protocol = \<lparr>service_endpoint = ''https://mail.example.com/EWS'', version = ''Exchange2013''\<rparr>"

definition sample_credentials :: credentials where
  "sample_credentials = \<lparr>username = ''user'', password = ''secret''\<rparr>"

definition sample_env :: env where
  "sample_env =
     \<lparr>discover = (\<lambda>calls address c verify_ssl. Inr (address, sample_protocol)),
      get_distinguished = (\<lambda>calls c.
         if c = Root then Inr sample_root
         else if c = Calendar then Inl (ErrorAccessDenied ''Access is denied'')
         else Inl (ErrorFolderNotFound ''The specified folder could not be found'' None)),
      get_folders = (\<lambda>calls f d.
         if f = sample_root \<and> d = SHALLOW
         then Inr [mk_folder Inbox ''Shared inbox'' False, sample_tois]
         else if f = sample_tois \<and> d = SHALLOW then Inr sample_listing
         else Inl (TransportError ''unexpected listing'')),
      find_items = (\<lambda>calls f. Inr ()),
      upload_items = (\<lambda>calls payload.
         case payload of
           RawData ds \<Rightarrow> Inr (map (\<lambda>d. (''raw-'' @ d, ''ck1'')) ds)
         | MergedData ps \<Rightarrow> Inr (map (\<lambda>(f, d). (''id-'' @ d, ''ck2'')) ps)),
      update_item = (\<lambda>calls items cr md sm srr. Inr (map fst items)),
      delete_item = (\<lambda>calls ids dt sm ato srr. Inr (map fst ids)),
      id_from_xml = (\<lambda>x. (x, ''ck'')),
      str_title = ascii_title,
      LOCALIZED_NAMES = (\<lambda>c.
         if c = Inbox then [''da_DK'' \<mapsto> [''Indbakke'']]
         else if c = SentItems then [''da_DK'' \<mapsto> [''Sendt Post'']]
         else Map.empty),
      CONFLICT_RESOLUTION_CHOICES = [''NeverOverwrite'', ''AutoResolve'', ''AlwaysOverwrite''],
      MESSAGE_DISPOSITION_CHOICES = [''SaveOnly'', ''SendOnly'', ''SendAndSaveCopy''],
      SEND_MEETING_INVITATIONS_AND_CANCELLATIONS_CHOICES =
        [''SendToNone'', ''SendOnlyToAll'', ''SendOnlyToChanged'', ''SendToAllAndSaveCopy'',
         ''SendToChangedAndSaveCopy''],
      DELETE_TYPE_CHOICES = [''HardDelete'', ''SoftDelete'', ''MoveToDeletedItems''],
      SEND_MEETING_CANCELLATIONS_CHOICES = [''SendToNone'', ''SendOnlyToAll'', ''SendToAllAndSaveCopy''],
      AFFECTED_TASK_OCCURRENCES_CHOICES = [''AllOccurrences'', ''SpecifiedOccurrenceOnly'']\<rparr>"

text \<open>The same server without a \<open>Top of Information Store\<close>: the root lists the folders itself.\<close>

definition flat_env :: env where
  "flat_env =
     sample_env\<lparr>get_folders := (\<lambda>calls f d.
        if f = sample_root \<and> d = SHALLOW then Inr [mk_folder Inbox ''Indbakke'' False]
        else if f = sample_root \<and> d = DEEP
        then Inr [mk_folder Inbox ''Indbakke'' False, mk_folder Tasks ''Opgaver'' False]
        else Inl (TransportError ''unexpected listing''))\<rparr>"

definition sample_account :: account where
  "sample_account =
     \<lparr>primary_smtp_address = ''user@example.com'', fullname = None, account_locale = ''da_DK'',
      access_type = IMPERSONATION, account_protocol = sample_protocol,
      account_version = ''Exchange2013'', root = sample_root, cache_folders = None,
      cache_calendar = None, cache_trash = None, cache_drafts = None, cache_inbox = None,
      cache_outbox = None, cache_sent = None, cache_junk = None, cache_tasks = None,
      cache_contacts = None, cache_recoverable_items_root = None,
      cache_recoverable_deleted_items = None\<rparr>"

definition sample_args :: account_args where
  "sample_args =
     \<lparr>arg_primary_smtp_address = ''user@example.com'', arg_fullname = None,
      arg_access_type = None, arg_autodiscover = True,
      arg_credentials = Some sample_credentials,
      arg_config = Some \<lparr>config_protocol = sample_protocol\<rparr>, arg_verify_ssl = True,
      arg_locale = ''da_DK''\<rparr>"

text \<open>The directory that discovery builds on the sample mailbox.\<close>

definition sample_directory :: directory where
  "sample_directory = (\<lambda>c. Some (filter (\<lambda>f. folder_class f = c) sample_listing))"

definition sample_calls :: "call list" where
  "sample_calls = [GetFolders sample_root SHALLOW, GetFolders sample_tois SHALLOW]"

section \<open>Auxiliary facts\<close>

lemma empty_directory_total: "empty_directory c = Some []"
  by (cases c) (simp_all add: empty_directory_def WELLKNOWN_FOLDERS_values_def)

lemma WELLKNOWN_FOLDERS_values_all: "set WELLKNOWN_FOLDERS_values = UNIV"
proof -
  have "c \<in> set WELLKNOWN_FOLDERS_values" for c
    by (cases c) (simp_all add: WELLKNOWN_FOLDERS_values_def)
  then show ?thesis by blast
qed

lemma classify_total:
  "\<forall>c. \<exists>l. d c = Some l \<Longrightarrow>
     \<exists>d'. classify d ws = (None, d') \<and>
          (\<forall>c. d' c = Some (the (d c) @ filter (\<lambda>f. folder_class f = c) ws))"
proof (induction ws arbitrary: d)
  case Nil
  then show ?case by auto
next
  case (Cons f fs)
  from Cons.prems obtain l where l: "d (folder_class f) = Some l" by blast
  let ?d = "d(folder_class f \<mapsto> l @ [f])"
  have "\<forall>c. \<exists>l. ?d c = Some l" using Cons.prems by simp
  from Cons.IH [OF this] obtain d' where
    d': "classify ?d fs = (None, d')"
        "\<forall>c. d' c = Some (the (?d c) @ filter (\<lambda>f. folder_class f = c) fs)" by blast
  show ?case using l d' by auto
qed

lemma classify_empty_directory:
  "classify empty_directory ws = (None, \<lambda>c. Some (filter (\<lambda>f. folder_class f = c) ws))"
proof -
  from classify_total [of empty_directory ws] obtain d' where
    d': "classify empty_directory ws = (None, d')"
        "\<forall>c. d' c = Some (filter (\<lambda>f. folder_class f = c) ws)"
    by (auto simp: empty_directory_total)
  from d'(2) have "d' = (\<lambda>c. Some (filter (\<lambda>f. folder_class f = c) ws))" by auto
  with d'(1) show ?thesis by simp
qed

lemma folders_cached:
  "folders e s calls = (Inr d, s', calls') \<Longrightarrow> folders e s' calls' = (Inr d, s', calls')"
  by (auto simp: folders_def split: option.splits prod.splits sum.splits)

lemma folders_locale:
  "folders e s calls = (r, s', calls') \<Longrightarrow> account_locale s' = account_locale s"
  by (auto simp: folders_def split: option.splits prod.splits sum.splits)

lemma localized_candidates_locale:
  "account_locale s' = account_locale s \<Longrightarrow>
     localized_candidates e s' c cands = localized_candidates e s c cands"
  by (simp add: localized_candidates_def)

text \<open>The not-found handler once the directory is known: both reads of the directory agree.\<close>

lemma search_default_folder_known:
  assumes dir: "folders e s calls = (Inr d, s1, calls1)"
    and cands: "d c = Some cands"
  shows "search_default_folder e c cause s calls =
     (if localized_candidates e s c cands \<noteq> [] then
        (if length (localized_candidates e s c cands) \<noteq> 1
         then (Inl (AssertionError (MultipleDefaults c (localized_candidates e s c cands))), s1, calls1)
         else (Inr (hd (localized_candidates e s c cands)), s1, calls1))
      else if filter is_distinguished cands = [] then
        (Inl (ErrorFolderNotFound (''No useable default '' @ class_name c @ '' folders'')
                (Some cause)), s1, calls1)
      else if length (filter is_distinguished cands) \<noteq> 1
        then (Inl (AssertionError (MultipleDefaults c (filter is_distinguished cands))), s1, calls1)
      else (Inr (hd (filter is_distinguished cands)), s1, calls1))"
proof -
  have again: "folders e s1 calls1 = (Inr d, s1, calls1)"
    using dir by (rule folders_cached)
  have loc: "localized_candidates e s1 c cands = localized_candidates e s c cands"
    using folders_locale [OF dir] by (rule localized_candidates_locale)
  show ?thesis
    by (simp add: search_default_folder_def dir again cands loc Let_def)
qed

lemma get_default_folder_not_found:
  "get_distinguished e calls c = Inl (ErrorFolderNotFound m cz) \<Longrightarrow>
     get_default_folder e c s calls =
       search_default_folder e c (ErrorFolderNotFound m cz) s (calls @ [GetDistinguished c])"
  by (simp add: get_default_folder_def Let_def)



text \<open>Discovery on the sample mailbox.\<close>

lemma sample_working_set:
  "working_set sample_env sample_account calls = (Inr sample_listing, calls @ sample_calls)"
  by (simp add: working_set_def sample_env_def sample_account_def sample_calls_def
      sample_root_def sample_tois_def mk_folder_def Let_def)

lemma sample_folders:
  "folders sample_env sample_account calls =
     (Inr sample_directory, sample_account\<lparr>cache_folders := Some sample_directory\<rparr>,
      calls @ sample_calls)"
proof -
  have "cache_folders sample_account = None" by (simp add: sample_account_def)
  then show ?thesis
    by (simp add: folders_def sample_working_set classify_empty_directory sample_directory_def)
qed


section \<open>Folder discovery\<close>

text \<open>
  Claim C6. When the shallow listing of the root holds a folder named
  \<open>Top of Information Store\<close>, the working set is the shallow listing of the first such
  folder, and the only remote calls are the two shallow listings: the root is never listed
  deep. When no folder has that name, the working set is the deep listing of the root.
\<close>

theorem working_set_top_of_information_store:
  assumes "get_folders e calls (root s) SHALLOW = Inr listing"
  shows "((\<exists>f \<in> set listing. name f = ''Top of Information Store'') \<longrightarrow>
            (\<exists>t \<in> set listing. name t = ''Top of Information Store'' \<and>
               find (\<lambda>f. name f = ''Top of Information Store'') listing = Some t \<and>
               working_set e s calls =
                 (get_folders e (calls @ [GetFolders (root s) SHALLOW]) t SHALLOW,
                  calls @ [GetFolders (root s) SHALLOW, GetFolders t SHALLOW]))) \<and>
         ((\<forall>f \<in> set listing. name f \<noteq> ''Top of Information Store'') \<longrightarrow>
            working_set e s calls =
              (get_folders e (calls @ [GetFolders (root s) SHALLOW]) (root s) DEEP,
               calls @ [GetFolders (root s) SHALLOW, GetFolders (root s) DEEP]))"
proof (cases "find (\<lambda>f. name f = ''Top of Information Store'') listing")
  case None
  then have no: "\<forall>f \<in> set listing. name f \<noteq> ''Top of Information Store''"
    by (simp add: find_None_iff)
  show ?thesis using assms None no by (simp add: working_set_def Let_def)
next
  case (Some t)
  then have "t \<in> set listing" "name t = ''Top of Information Store''"
    by (auto simp: find_Some_iff)
  then show ?thesis using assms Some by (auto simp: working_set_def Let_def)
qed

theorem working_set_top_of_information_store_witness:
  "working_set sample_env sample_account [] =
     (Inr sample_listing, [GetFolders sample_root SHALLOW, GetFolders sample_tois SHALLOW]) \<and>
   working_set flat_env sample_account [] =
     (Inr [mk_folder Inbox ''Indbakke'' False, mk_folder Tasks ''Opgaver'' False],
      [GetFolders sample_root SHALLOW, GetFolders sample_root DEEP])"
proof -
  have r: "root sample_account = sample_root" by (simp add: sample_account_def)
  have h1: "get_folders sample_env [] (root sample_account) SHALLOW =
              Inr [mk_folder Inbox ''Shared inbox'' False, sample_tois]"
    by (simp add: sample_env_def r)
  have p1: "\<exists>f \<in> set [mk_folder Inbox ''Shared inbox'' False, sample_tois].
              name f = ''Top of Information Store''"
    by (simp add: sample_tois_def mk_folder_def)
  have f1: "find (\<lambda>f. name f = ''Top of Information Store'')
              [mk_folder Inbox ''Shared inbox'' False, sample_tois] = Some sample_tois"
    by (simp add: sample_tois_def mk_folder_def)
  have g1: "get_folders sample_env ([] @ [GetFolders (root sample_account) SHALLOW])
              sample_tois SHALLOW = Inr sample_listing"
    by (simp add: sample_env_def sample_tois_def sample_root_def mk_folder_def)
  have h2: "get_folders flat_env [] (root sample_account) SHALLOW =
              Inr [mk_folder Inbox ''Indbakke'' False]"
    by (simp add: flat_env_def r)
  have p2: "\<forall>f \<in> set [mk_folder Inbox ''Indbakke'' False]. name f \<noteq> ''Top of Information Store''"
    by (simp add: mk_folder_def)
  have g2: "get_folders flat_env ([] @ [GetFolders (root sample_account) SHALLOW])
              (root sample_account) DEEP =
              Inr [mk_folder Inbox ''Indbakke'' False, mk_folder Tasks ''Opgaver'' False]"
    by (simp add: flat_env_def r)
  from working_set_top_of_information_store [OF h1] p1 obtain t where
    t: "find (\<lambda>f. name f = ''Top of Information Store'')
          [mk_folder Inbox ''Shared inbox'' False, sample_tois] = Some t"
       "working_set sample_env sample_account [] =
          (get_folders sample_env ([] @ [GetFolders (root sample_account) SHALLOW]) t SHALLOW,
           [] @ [GetFolders (root sample_account) SHALLOW, GetFolders t SHALLOW])"
    by blast
  from t(1) f1 have "t = sample_tois" by simp
  with t(2) g1 have a: "working_set sample_env sample_account [] =
     (Inr sample_listing, [GetFolders sample_root SHALLOW, GetFolders sample_tois SHALLOW])"
    by (simp add: r)
  from working_set_top_of_information_store [OF h2] p2
  have "working_set flat_env sample_account [] =
          (get_folders flat_env ([] @ [GetFolders (root sample_account) SHALLOW])
             (root sample_account) DEEP,
           [] @ [GetFolders (root sample_account) SHALLOW, GetFolders (root sample_account) DEEP])"
    by blast
  with g2 have b: "working_set flat_env sample_account [] =
     (Inr [mk_folder Inbox ''Indbakke'' False, mk_folder Tasks ''Opgaver'' False],
      [GetFolders sample_root SHALLOW, GetFolders sample_root DEEP])"
    by (simp add: r)
  from a b show ?thesis by simp
qed

text \<open>
  Claim C7. When discovery obtains a working set, it builds the directory without failing:
  the keys of the directory are exactly the well-known folder types, and under every type
  stand the folders of the working set that carry this type (\<open>Other\<close> among them), all of
  them, in the order of the working set. The directory is stored on the account.
\<close>

theorem folders_directory_complete:
  assumes "cache_folders s = None"
    and "working_set e s calls = (Inr ws, calls')"
  shows "\<exists>d. folders e s calls = (Inr d, s\<lparr>cache_folders := Some d\<rparr>, calls') \<and>
             dom d = set WELLKNOWN_FOLDERS_values \<and>
             (\<forall>c. d c = Some (filter (\<lambda>f. folder_class f = c) ws))"
proof -
  let ?d = "\<lambda>c. Some (filter (\<lambda>f. folder_class f = c) ws)"
  have "folders e s calls = (Inr ?d, s\<lparr>cache_folders := Some ?d\<rparr>, calls')"
    using assms by (simp add: folders_def classify_empty_directory)
  moreover have "dom ?d = set WELLKNOWN_FOLDERS_values"
    by (simp add: WELLKNOWN_FOLDERS_values_all dom_def)
  ultimately show ?thesis by blast
qed

theorem folders_directory_complete_witness:
  "\<exists>d. folders sample_env sample_account [] =
          (Inr d, sample_account\<lparr>cache_folders := Some d\<rparr>, sample_calls) \<and>
        dom d = set WELLKNOWN_FOLDERS_values \<and>
        d Other = Some [mk_folder Other ''Noter'' False] \<and>
        d SentItems = Some [mk_folder SentItems ''Sendt post'' False,
                            mk_folder SentItems ''SENDT POST'' False] \<and>
        d Tasks = Some []"
proof -
  have h1: "cache_folders sample_account = None" by (simp add: sample_account_def)
  have h2: "working_set sample_env sample_account [] = (Inr sample_listing, sample_calls)"
    using sample_working_set [of "[]"] by simp
  from folders_directory_complete [OF h1 h2] obtain d where
    d: "folders sample_env sample_account [] =
          (Inr d, sample_account\<lparr>cache_folders := Some d\<rparr>, sample_calls)"
       "dom d = set WELLKNOWN_FOLDERS_values"
       "\<forall>c. d c = Some (filter (\<lambda>f. folder_class f = c) sample_listing)"
    by blast
  from d(3) have "d Other = Some [mk_folder Other ''Noter'' False]"
    "d SentItems = Some [mk_folder SentItems ''Sendt post'' False,
                         mk_folder SentItems ''SENDT POST'' False]"
    "d Tasks = Some []"
    by (simp_all add: sample_listing_def mk_folder_def)
  with d(1,2) show ?thesis by blast
qed

section \<open>Default-folder resolution\<close>

text \<open>
  Claim C2. After a folder-not-found answer of the distinguished lookup, when the filter
  that decides (the localized names, or the distinguished flag when no name matched) leaves
  more than one folder, the resolver raises the assertion error that lists all of them, and
  returns no folder.
\<close>

theorem get_default_folder_ambiguous:
  assumes "get_distinguished e calls c = Inl (ErrorFolderNotFound m cz)"
    and "folders e s (calls @ [GetDistinguished c]) = (Inr d, s1, calls1)"
    and "d c = Some cands"
    and "survivors = (if localized_candidates e s c cands \<noteq> []
                      then localized_candidates e s c cands
                      else filter is_distinguished cands)"
    and "1 < length survivors"
  shows "get_default_folder e c s calls =
           (Inl (AssertionError (MultipleDefaults c survivors)), s1, calls1)"
proof -
  have "get_default_folder e c s calls =
          search_default_folder e c (ErrorFolderNotFound m cz) s (calls @ [GetDistinguished c])"
    using assms(1) by (rule get_default_folder_not_found)
  also have "\<dots> = (Inl (AssertionError (MultipleDefaults c survivors)), s1, calls1)"
  proof (cases "localized_candidates e s c cands = []")
    case True
    with assms(4,5) have "survivors = filter is_distinguished cands"
      "filter is_distinguished cands \<noteq> []" "length (filter is_distinguished cands) \<noteq> 1"
      by auto
    with True show ?thesis
      by (simp add: search_default_folder_known [OF assms(2,3)])
  next
    case False
    with assms(4,5) have "survivors = localized_candidates e s c cands"
      "length (localized_candidates e s c cands) \<noteq> 1"
      by auto
    with False show ?thesis
      by (simp add: search_default_folder_known [OF assms(2,3)])
  qed
  finally show ?thesis .
qed

theorem get_default_folder_ambiguous_witness:
  "get_default_folder sample_env SentItems sample_account [] =
     (Inl (AssertionError (MultipleDefaults SentItems
             [mk_folder SentItems ''Sendt post'' False, mk_folder SentItems ''SENDT POST'' False])),
      sample_account\<lparr>cache_folders := Some sample_directory\<rparr>,
      [GetDistinguished SentItems] @ sample_calls)"
proof -
  let ?cands = "[mk_folder SentItems ''Sendt post'' False, mk_folder SentItems ''SENDT POST'' False]"
  have h1: "get_distinguished sample_env [] SentItems =
              Inl (ErrorFolderNotFound ''The specified folder could not be found'' None)"
    by (simp add: sample_env_def)
  have h2: "folders sample_env sample_account ([] @ [GetDistinguished SentItems]) =
              (Inr sample_directory, sample_account\<lparr>cache_folders := Some sample_directory\<rparr>,
               [GetDistinguished SentItems] @ sample_calls)"
    using sample_folders [of "[GetDistinguished SentItems]"] by simp
  have h3: "sample_directory SentItems = Some ?cands"
    by (simp add: sample_directory_def sample_listing_def mk_folder_def)
  have loc: "localized_candidates sample_env sample_account SentItems ?cands = ?cands"
    by (simp add: localized_candidates_def sample_env_def sample_account_def mk_folder_def
        ascii_title_def is_lower_def is_upper_def to_upper_def to_lower_def char_of_def bit_Suc_0_iff)
  have h4: "?cands = (if localized_candidates sample_env sample_account SentItems ?cands \<noteq> []
                      then localized_candidates sample_env sample_account SentItems ?cands
                      else filter is_distinguished ?cands)"
    by (simp add: loc)
  have h5: "1 < length ?cands" by simp
  show ?thesis by (rule get_default_folder_ambiguous [OF h1 h2 h3 h4 h5])
qed

text \<open>
  Claim C3. After a folder-not-found answer of the distinguished lookup, when exactly one
  folder of the requested type in the directory has a name whose title-cased form is a
  localized name of the type for the locale of the account, the resolver returns this folder.
\<close>

theorem get_default_folder_localized_unique:
  assumes "get_distinguished e calls c = Inl (ErrorFolderNotFound m cz)"
    and "folders e s (calls @ [GetDistinguished c]) = (Inr d, s1, calls1)"
    and "d c = Some cands"
    and "filter (\<lambda>f. str_title e (name f) \<in>
                   set (case LOCALIZED_NAMES e c (account_locale s) of None \<Rightarrow> [] | Some ns \<Rightarrow> ns))
           cands = [f]"
  shows "get_default_folder e c s calls = (Inr f, s1, calls1)"
proof -
  have one: "localized_candidates e s c cands = [f]"
    using assms(4) by (simp add: localized_candidates_def)
  have "get_default_folder e c s calls =
          search_default_folder e c (ErrorFolderNotFound m cz) s (calls @ [GetDistinguished c])"
    using assms(1) by (rule get_default_folder_not_found)
  also have "\<dots> = (Inr f, s1, calls1)"
    by (simp add: search_default_folder_known [OF assms(2,3)] one)
  finally show ?thesis .
qed

theorem get_default_folder_localized_unique_witness:
  "get_default_folder sample_env Inbox sample_account [] =
     (Inr (mk_folder Inbox ''indBAKKE'' False),
      sample_account\<lparr>cache_folders := Some sample_directory\<rparr>,
      [GetDistinguished Inbox] @ sample_calls)"
proof -
  have h1: "get_distinguished sample_env [] Inbox =
              Inl (ErrorFolderNotFound ''The specified folder could not be found'' None)"
    by (simp add: sample_env_def)
  have h2: "folders sample_env sample_account ([] @ [GetDistinguished Inbox]) =
              (Inr sample_directory, sample_account\<lparr>cache_folders := Some sample_directory\<rparr>,
               [GetDistinguished Inbox] @ sample_calls)"
    using sample_folders [of "[GetDistinguished Inbox]"] by simp
  have h3: "sample_directory Inbox = Some [mk_folder Inbox ''indBAKKE'' False]"
    by (simp add: sample_directory_def sample_listing_def mk_folder_def)
  have h4: "filter (\<lambda>f. str_title sample_env (name f) \<in>
                     set (case LOCALIZED_NAMES sample_env Inbox (account_locale sample_account) of
                            None \<Rightarrow> [] | Some ns \<Rightarrow> ns))
              [mk_folder Inbox ''indBAKKE'' False] = [mk_folder Inbox ''indBAKKE'' False]"
    by (simp add: sample_env_def sample_account_def mk_folder_def
        ascii_title_def is_lower_def is_upper_def to_upper_def to_lower_def char_of_def bit_Suc_0_iff)
  show ?thesis by (rule get_default_folder_localized_unique [OF h1 h2 h3 h4])
qed

text \<open>
  Claim C4. After an access-denied answer of the distinguished lookup, the resolver builds
  a handle for the requested type and probes it with a query. The remote calls are the
  lookup and the probe, nothing else: no folder is listed and the account, its directory
  cache included, is left as it was. When the probe returns, the handle is the result.
\<close>

theorem get_default_folder_access_denied:
  assumes "get_distinguished e calls c = Inl (ErrorAccessDenied m)"
  shows "snd (get_default_folder e c s calls) =
           (s, calls @ [GetDistinguished c, FindItems (Folder_init c)]) \<and>
         folder_class (Folder_init c) = c \<and>
         (find_items e (calls @ [GetDistinguished c]) (Folder_init c) = Inr () \<longrightarrow>
            fst (get_default_folder e c s calls) = Inr (Folder_init c)) \<and>
         (\<forall>x \<in> set (snd (snd (get_default_folder e c s calls))).
            \<forall>f dp. x = GetFolders f dp \<longrightarrow> x \<in> set calls)"
  using assms
  by (auto simp: get_default_folder_def Let_def Folder_init_def split: sum.splits)

theorem get_default_folder_access_denied_witness:
  "get_default_folder sample_env Calendar sample_account [] =
     (Inr (Folder_init Calendar), sample_account,
      [GetDistinguished Calendar, FindItems (Folder_init Calendar)])"
proof -
  have h1: "get_distinguished sample_env [] Calendar = Inl (ErrorAccessDenied ''Access is denied'')"
    by (simp add: sample_env_def)
  have h2: "find_items sample_env ([] @ [GetDistinguished Calendar]) (Folder_init Calendar) = Inr ()"
    by (simp add: sample_env_def)
  from get_default_folder_access_denied [OF h1, of sample_account] h2
  have "snd (get_default_folder sample_env Calendar sample_account []) =
          (sample_account, [GetDistinguished Calendar, FindItems (Folder_init Calendar)])"
    and "fst (get_default_folder sample_env Calendar sample_account []) = Inr (Folder_init Calendar)"
    by simp_all
  then show ?thesis by (cases "get_default_folder sample_env Calendar sample_account []") simp
qed

text \<open>
  Claim C5. After a folder-not-found answer of the distinguished lookup, when neither the
  localized names nor the distinguished flag select a folder of the requested type, the
  resolver raises the folder-not-found error \<open>No useable default ... folders\<close>, whose
  cause is the error of the lookup.
\<close>

theorem get_default_folder_no_usable:
  assumes "get_distinguished e calls c = Inl (ErrorFolderNotFound m cz)"
    and "folders e s (calls @ [GetDistinguished c]) = (Inr d, s1, calls1)"
    and "d c = Some cands"
    and "localized_candidates e s c cands = []"
    and "filter is_distinguished cands = []"
  shows "get_default_folder e c s calls =
           (Inl (ErrorFolderNotFound (''No useable default '' @ class_name c @ '' folders'')
                   (Some (ErrorFolderNotFound m cz))), s1, calls1)"
proof -
  have "get_default_folder e c s calls =
          search_default_folder e c (ErrorFolderNotFound m cz) s (calls @ [GetDistinguished c])"
    using assms(1) by (rule get_default_folder_not_found)
  also have "\<dots> = (Inl (ErrorFolderNotFound (''No useable default '' @ class_name c @ '' folders'')
                          (Some (ErrorFolderNotFound m cz))), s1, calls1)"
    by (simp add: search_default_folder_known [OF assms(2,3)] assms(4,5))
  finally show ?thesis .
qed

theorem get_default_folder_no_usable_witness:
  "get_default_folder sample_env Tasks sample_account [] =
     (Inl (ErrorFolderNotFound ''No useable default Tasks folders''
             (Some (ErrorFolderNotFound ''The specified folder could not be found'' None))),
      sample_account\<lparr>cache_folders := Some sample_directory\<rparr>,
      [GetDistinguished Tasks] @ sample_calls)"
proof -
  have h1: "get_distinguished sample_env [] Tasks =
              Inl (ErrorFolderNotFound ''The specified folder could not be found'' None)"
    by (simp add: sample_env_def)
  have h2: "folders sample_env sample_account ([] @ [GetDistinguished Tasks]) =
              (Inr sample_directory, sample_account\<lparr>cache_folders := Some sample_directory\<rparr>,
               [GetDistinguished Tasks] @ sample_calls)"
    using sample_folders [of "[GetDistinguished Tasks]"] by simp
  have h3: "sample_directory Tasks = Some []"
    by (simp add: sample_directory_def sample_listing_def mk_folder_def)
  have h4: "localized_candidates sample_env sample_account Tasks [] = []"
    by (simp add: localized_candidates_def)
  have h5: "filter is_distinguished ([] :: folder list) = []" by simp
  from get_default_folder_no_usable [OF h1 h2 h3 h4 h5] show ?thesis by simp
qed

section \<open>Caching\<close>



section \<open>Bulk operations\<close>

text \<open>
  Claim C9, as stated, fails: the assertions on the option arguments come before the test
  for an empty input, so an empty \<open>bulk_update\<close> with an option outside its choice set
  raises \<open>AssertionError\<close> instead of returning the empty list.
\<close>

theorem bulk_update_empty_counterexample:
  "bulk_update sample_env sample_account [] ''Bogus'' ''SaveOnly'' ''SendToNone'' True [] =
     (Inl (AssertionError (BadChoice ''Bogus'')), []) \<and>
   fst (bulk_update sample_env sample_account [] ''Bogus'' ''SaveOnly'' ''SendToNone'' True [])
     \<noteq> Inr []"
  by (simp add: bulk_update_def sample_env_def)

text \<open>
  Claim C9, amended. With an empty input sequence, \<open>bulk_update\<close> and \<open>bulk_delete\<close>
  return the empty list whenever every option argument is in its choice set, and they make
  no remote call whatever the option arguments are.
\<close>

theorem bulk_empty_short_circuit:
  "(cr \<in> set (CONFLICT_RESOLUTION_CHOICES e) \<and> md \<in> set (MESSAGE_DISPOSITION_CHOICES e) \<and>
    sm \<in> set (SEND_MEETING_INVITATIONS_AND_CANCELLATIONS_CHOICES e) \<longrightarrow>
      bulk_update e s [] cr md sm srr calls = (Inr [], calls)) \<and>
   (dt \<in> set (DELETE_TYPE_CHOICES e) \<and> smc \<in> set (SEND_MEETING_CANCELLATIONS_CHOICES e) \<and>
    ato \<in> set (AFFECTED_TASK_OCCURRENCES_CHOICES e) \<longrightarrow>
      bulk_delete e s [] dt smc ato srr calls = (Inr [], calls)) \<and>
   snd (bulk_update e s [] cr md sm srr calls) = calls \<and>
   snd (bulk_delete e s [] dt smc ato srr calls) = calls"
  by (simp add: bulk_update_def bulk_delete_def peek_def)

theorem bulk_empty_short_circuit_witness:
  "bulk_update sample_env sample_account [] ''AutoResolve'' ''SaveOnly'' ''SendToNone'' True [] =
     (Inr [], []) \<and>
   bulk_delete sample_env sample_account [] ''HardDelete'' ''SendToNone''
     ''SpecifiedOccurrenceOnly'' True [] = (Inr [], [])"
proof -
  have h1: "''AutoResolve'' \<in> set (CONFLICT_RESOLUTION_CHOICES sample_env) \<and>
            ''SaveOnly'' \<in> set (MESSAGE_DISPOSITION_CHOICES sample_env) \<and>
            ''SendToNone'' \<in> set (SEND_MEETING_INVITATIONS_AND_CANCELLATIONS_CHOICES sample_env)"
    by (simp add: sample_env_def)
  have h2: "''HardDelete'' \<in> set (DELETE_TYPE_CHOICES sample_env) \<and>
            ''SendToNone'' \<in> set (SEND_MEETING_CANCELLATIONS_CHOICES sample_env) \<and>
            ''SpecifiedOccurrenceOnly'' \<in> set (AFFECTED_TASK_OCCURRENCES_CHOICES sample_env)"
    by (simp add: sample_env_def)
  from bulk_empty_short_circuit [of "''AutoResolve''" sample_env "''SaveOnly''" "''SendToNone''"
      sample_account True "[]" "''HardDelete''" "''SendToNone''" "''SpecifiedOccurrenceOnly''"]
    h1 h2
  show ?thesis by blast
qed

section \<open>Upload\<close>

text \<open>
  Claim C10. \<open>upload(data, folders=None)\<close> calls the upload service with the raw data and,
  when that call returns, a second time with every data element paired with \<open>None\<close>; when
  the second call returns, the item ids handed back are built from its answer, and the
  answer of the first call is not used.
\<close>

theorem upload_without_folders_calls_twice:
  assumes "upload_items e calls (RawData data) = Inr first_ids"
    and "upload_items e (calls @ [UploadItems (RawData data)])
           (MergedData (map (\<lambda>data_str. (None, data_str)) data)) = Inr second_ids"
  shows "upload e s data NoFolders calls =
           (Inr (map (\<lambda>(i, change_key). ItemId i change_key) second_ids),
            calls @ [UploadItems (RawData data),
                     UploadItems (MergedData (map (\<lambda>data_str. (None, data_str)) data))])"
  using assms by (simp add: upload_def Let_def)

theorem upload_without_folders_calls_twice_witness:
  "upload sample_env sample_account [''a'', ''b''] NoFolders [] =
     (Inr [ItemId ''id-a'' ''ck2'', ItemId ''id-b'' ''ck2''],
      [UploadItems (RawData [''a'', ''b'']),
       UploadItems (MergedData [(None, ''a''), (None, ''b'')])])"
proof -
  have h1: "upload_items sample_env [] (RawData [''a'', ''b'']) =
              Inr [(''raw-a'', ''ck1''), (''raw-b'', ''ck1'')]"
    by (simp add: sample_env_def)
  have h2: "upload_items sample_env ([] @ [UploadItems (RawData [''a'', ''b''])])
              (MergedData (map (\<lambda>data_str. (None, data_str)) [''a'', ''b''])) =
              Inr [(''id-a'', ''ck2''), (''id-b'', ''ck2'')]"
    by (simp add: sample_env_def)
  from upload_without_folders_calls_twice [OF h1 h2, of sample_account]
  show ?thesis by simp
qed

section \<open>Construction\<close>

text \<open>
  Claim C1 asks that a construction with both the discovery flag and a configuration fails
  with the conflict error before any network access. The code does not do that: on a
  construction with a valid address, credentials, the discovery flag and a configuration,
  the conflict error of line 38 is raised only after the discovery call of line 36, so the
  log of remote calls holds that call when the error arrives.
\<close>

theorem Account_init_conflict_after_discover:
  "arg_autodiscover sample_args \<and>
   arg_credentials sample_args = Some sample_credentials \<and>
   arg_config sample_args = Some \<lparr>config_protocol = sample_protocol\<rparr> \<and>
   Account_init sample_env sample_args [] =
     (Inl (AttributeError ''config is ignored when autodiscover is active''),
      [Discover ''user@example.com'' sample_credentials True])"
  by (simp add: Account_init_def sample_args_def sample_env_def resolve_access_type_def
      DELEGATE_def IMPERSONATION_def Let_def)

end
